theory Spec2Isabelle
  imports Main "HOL-Library.Sublist"
begin

section \<open>JavaScript values\<close>

text \<open>
  The plugin is dynamically typed: it tests values for truthiness, compares them with
  \<open>===\<close>, reads properties that may be absent and counts the keys of an object.
  Values the code inspects in this way are modelled by \<open>jsval\<close>; an object is the
  ordered list of its own enumerable properties. Numbers are integers (timestamps and
  counters; \<open>NaN\<close> and fractions do not occur in what the plugin inspects).
\<close>

datatype jsval =
    JUndefined
  | JNull
  | JBool bool
  | JNum int
  | JStr string
  | JObj "(string \<times> jsval) list"

text \<open>Truthiness, as tested by \<open>if (v)\<close>, \<open>!v\<close>, \<open>a || b\<close> and \<open>a && b\<close>.\<close>

fun truthy :: "jsval \<Rightarrow> bool" where
  "truthy JUndefined = False"
| "truthy JNull = False"
| "truthy (JBool b) = b"
| "truthy (JNum n) = (n \<noteq> 0)"
| "truthy (JStr s) = (s \<noteq> [])"
| "truthy (JObj kvs) = True"

text \<open>
  Property read \<open>v.k\<close>: an absent property reads as \<open>undefined\<close>, and so does any
  property of a primitive. Reading a property of \<open>undefined\<close> or \<open>null\<close> throws in
  JavaScript; every read in the plugin is guarded by a truthiness test of the object, so
  that case is never reached and is given \<open>undefined\<close> here.
\<close>

fun getprop :: "jsval \<Rightarrow> string \<Rightarrow> jsval" where
  "getprop (JObj kvs) k = (case map_of kvs k of Some v \<Rightarrow> v | None \<Rightarrow> JUndefined)"
| "getprop v k = JUndefined"

text \<open>\<open>Object.keys(v)\<close>: the own enumerable keys of an object.\<close>

fun object_keys :: "jsval \<Rightarrow> string list" where
  "object_keys (JObj kvs) = remdups (map fst kvs)"
| "object_keys v = []"

text \<open>
  \<open>s.indexOf(p)\<close>: the position of the first occurrence of \<open>p\<close> in \<open>s\<close>, or \<open>-1\<close>.
\<close>

fun indexOf :: "string \<Rightarrow> string \<Rightarrow> int" where
  "indexOf [] p = (if p = [] then 0 else - 1)"
| "indexOf (c # cs) p =
     (if prefix p (c # cs) then 0
      else (let r = indexOf cs p in if r < 0 then - 1 else r + 1))"

section \<open>Data model\<close>

text \<open>
  Cookie attributes (\<open>options.cookie\<close>). The plugin itself reads \<open>path\<close> and
  \<open>secure\<close>; the other attributes (\<open>maxAge\<close>, \<open>domain\<close>, ...) are passed through.
\<close>

record cookie_options =
  path :: "string option"
  secure :: jsval
  attrs :: "(string \<times> jsval) list"

text \<open>
  A record as \<open>Store.get\<close> yields it. The plugin reads \<open>sessionId\<close>,
  \<open>encryptedSessionId\<close> and \<open>expires\<close> (a millisecond timestamp, \<open>None\<close> when
  absent or \<open>null\<close>) and hands the whole record to the \<open>Session\<close> constructor.
\<close>

record stored_session =
  sessionId :: jsval
  encryptedSessionId :: jsval
  expires :: "int option"
  stored_cookie :: cookie_options
  data :: "(string \<times> jsval) list"

text \<open>
  The store (\<open>options.store\<close>) is an external collaborator reached through callbacks.
  Each operation is modelled by what it passes to its callback: \<open>get\<close> passes
  \<open>(err, session)\<close>, \<open>set\<close> and \<open>destroy\<close> pass \<open>err\<close>. The callback is taken to be
  invoked exactly once per call.
\<close>

record store =
  store_get :: "string \<Rightarrow> jsval \<times> stored_session option"
  store_set :: "jsval \<Rightarrow> jsval \<Rightarrow> jsval"
  store_destroy :: "string \<Rightarrow> jsval"

text \<open>The options as the application passes them to the plugin.\<close>

record raw_options =
  opt_secret :: "string option"
  opt_store :: "store option"
  opt_cookieName :: "string option"
  opt_cookie :: "cookie_options option"
  opt_saveUninitialized :: jsval

text \<open>The options after \<open>ensureDefaults\<close>, as the two hooks close over them.\<close>

record options =
  secret :: "string option"
  store :: store
  cookieName :: string
  cookie :: cookie_options
  saveUninitialized :: jsval

text \<open>
  What the plugin requires from other modules: \<open>cookieSignature.unsign\<close> (\<open>None\<close> is
  its \<open>false\<close>), \<open>generateSessionIds\<close> of \<open>./utils\<close> (the pair
  \<open>(sessionId, encryptedSessionId)\<close> it returns on this call), the constructors of
  \<open>./session\<close> and \<open>./store\<close>, and \<open>Date.now()\<close>. None of them is part of
  \<open>lib/fastifySession.js\<close>; they are parameters of the model. An \<open>env\<close> holds
  them as they are during one invocation of a hook: two requests are served under two
  environments, which differ in what the clock reads and in what the generator returns.
\<close>

record env =
  unsign :: "string \<Rightarrow> string option \<Rightarrow> string option"
  generateSessionIds :: "string option \<Rightarrow> jsval \<times> jsval"
  Session_new :: "jsval \<Rightarrow> jsval \<Rightarrow> cookie_options \<Rightarrow> string option \<Rightarrow> stored_session option \<Rightarrow> jsval"
  Store_new :: store
  now :: int

text \<open>
  The part of the request the hooks read or write: \<open>request.req.url\<close>,
  \<open>request.req.connection\<close>, \<open>request.cookies\<close>, \<open>request.headers\<close> and
  \<open>request.session\<close>.
\<close>

record request =
  url :: string
  connection :: jsval
  cookies :: "string \<Rightarrow> string option"
  headers :: "string \<Rightarrow> jsval"
  session :: jsval

text \<open>The calls a hook makes on the store and on the reply, in the order it makes them.\<close>

datatype event =
    StoreGet string
  | StoreDestroy string
  | StoreSet jsval jsval
  | SetCookie string jsval jsval

text \<open>How a hook ends: \<open>done()\<close> or \<open>done(err)\<close>.\<close>

datatype outcome = Done | Failed jsval

datatype setup_error = Error string

section \<open>Setup\<close>

definition checkOptions :: "raw_options \<Rightarrow> setup_error option" where
  "checkOptions opts =
     (case opt_secret opts of
        None \<Rightarrow> Some (Error ''the secret option is required!'')
      | Some s \<Rightarrow>
          if s = [] then Some (Error ''the secret option is required!'')
          else if length s < 32 then Some (Error ''the secret must have length 32 or greater'')
          else None)"

text \<open>\<open>option(options, key, def)\<close>, applied to the value read at \<open>options[key]\<close>.\<close>

definition option :: "jsval \<Rightarrow> jsval \<Rightarrow> jsval" where
  "option v def = (if v = JUndefined then def else v)"

definition ensureDefaults :: "env \<Rightarrow> raw_options \<Rightarrow> options" where
  "ensureDefaults E opts =
     (let c = (case opt_cookie opts of
                 None \<Rightarrow> \<lparr>path = None, secure = JUndefined, attrs = []\<rparr>
               | Some c \<Rightarrow> c)
      in \<lparr>secret = opt_secret opts,
          store = (case opt_store opts of None \<Rightarrow> Store_new E | Some st \<Rightarrow> st),
          cookieName = (case opt_cookieName opts of
                          None \<Rightarrow> ''sessionId''
                        | Some n \<Rightarrow> if n = [] then ''sessionId'' else n),
          cookie = c\<lparr>secure := option (secure c) (JBool True)\<rparr>,
          saveUninitialized = option (opt_saveUninitialized opts) (JBool True)\<rparr>)"

text \<open>
  \<open>session(fastify, options, next)\<close>: either \<open>next(error)\<close>, or the request is
  decorated with the empty object as its \<open>session\<close>, both hooks are registered over the
  defaulted options, and \<open>next()\<close>. The result on success is that decoration and those
  options.
\<close>

definition session_plugin :: "env \<Rightarrow> raw_options \<Rightarrow> setup_error + jsval \<times> options" where
  "session_plugin E opts =
     (case checkOptions opts of
        Some error \<Rightarrow> Inl error
      | None \<Rightarrow> Inr (JObj [], ensureDefaults E opts))"

section \<open>The preHandler hook\<close>

definition newSession :: "env \<Rightarrow> string option \<Rightarrow> request \<Rightarrow> cookie_options \<Rightarrow> request \<times> outcome" where
  "newSession E secret' request cookieOpts =
     (let sessionIds = generateSessionIds E secret';
          session' = Session_new E (fst sessionIds) (snd sessionIds) cookieOpts secret' None
      in (request\<lparr>session := session'\<rparr>, Done))"

definition getDestroyCallback ::
  "env \<Rightarrow> string option \<Rightarrow> request \<Rightarrow> cookie_options \<Rightarrow> jsval \<Rightarrow> request \<times> outcome" where
  "getDestroyCallback E secret' request cookieOpts err =
     (if truthy err then (request, Failed err)
      else newSession E secret' request cookieOpts)"

text \<open>
  The callback \<open>handleSession\<close> passes to \<open>options.store.get\<close>. Its \<open>sid\<close> is the
  local \<open>sessionId\<close> of \<open>handleSession\<close>: the cookie value as the request carried it.
\<close>

definition getCallback ::
  "env \<Rightarrow> options \<Rightarrow> request \<Rightarrow> string \<Rightarrow> jsval \<Rightarrow> stored_session option
     \<Rightarrow> event list \<times> request \<times> outcome" where
  "getCallback E opts request sid err found =
     (if truthy err then
        (if getprop err ''code'' = JStr ''ENOENT''
         then ([], newSession E (secret opts) request (cookie opts))
         else ([], request, Failed err))
      else
        (case found of
           None \<Rightarrow> ([], newSession E (secret opts) request (cookie opts))
         | Some s \<Rightarrow>
             if (case expires s of None \<Rightarrow> False | Some e \<Rightarrow> e \<noteq> 0 \<and> e \<le> now E)
             then ([StoreDestroy sid],
                   getDestroyCallback E (secret opts) request (cookie opts)
                     (store_destroy (store opts) sid))
             else ([], request\<lparr>session :=
                         Session_new E (sessionId s) (encryptedSessionId s)
                           (cookie opts) (secret opts) (Some s)\<rparr>, Done)))"

text \<open>\<open>cookieOpts.path || '/'\<close>\<close>

definition cookiePath :: "cookie_options \<Rightarrow> string" where
  "cookiePath cookieOpts =
     (case path cookieOpts of None \<Rightarrow> ''/'' | Some p \<Rightarrow> if p = [] then ''/'' else p)"

definition handleSession :: "env \<Rightarrow> options \<Rightarrow> request \<Rightarrow> event list \<times> request \<times> outcome" where
  "handleSession E opts request =
     (if indexOf (url request) (cookiePath (cookie opts)) \<noteq> 0 then ([], request, Done)
      else
        (case cookies request (cookieName opts) of
           None \<Rightarrow> ([], newSession E (secret opts) request (cookie opts))
         | Some sid \<Rightarrow>
             if sid = [] then ([], newSession E (secret opts) request (cookie opts))
             else
               (case unsign E sid (secret opts) of
                  None \<Rightarrow> ([], newSession E (secret opts) request (cookie opts))
                | Some decryptedSessionId \<Rightarrow>
                    (case store_get (store opts) decryptedSessionId of
                       (err, found) \<Rightarrow>
                         (case getCallback E opts request sid err found of
                            (evs, res) \<Rightarrow> (StoreGet decryptedSessionId # evs, res))))))"

section \<open>The onSend hook\<close>

definition isSessionModified :: "jsval \<Rightarrow> bool" where
  "isSessionModified s = (length (object_keys s) \<noteq> 4)"

definition shouldSaveSession :: "request \<Rightarrow> cookie_options \<Rightarrow> jsval \<Rightarrow> bool" where
  "shouldSaveSession request cookieOpts saveUninit =
     (if \<not> truthy saveUninit \<and> \<not> isSessionModified (session request) then False
      else if secure cookieOpts \<noteq> JBool True then True
      else if truthy (connection request)
              \<and> getprop (connection request) ''encrypted'' = JBool True then True
      else headers request ''x-forwarded-proto'' = JStr ''https'')"

text \<open>The callback \<open>saveSession\<close> passes to \<open>options.store.set\<close>.\<close>

definition setCallback :: "options \<Rightarrow> jsval \<Rightarrow> jsval \<Rightarrow> event list \<times> outcome" where
  "setCallback opts s err =
     (if truthy err then ([], Failed err)
      else ([SetCookie (cookieName opts) (getprop s ''encryptedSessionId'') (getprop s ''cookie'')],
            Done))"

definition saveSession :: "options \<Rightarrow> request \<Rightarrow> event list \<times> outcome" where
  "saveSession opts request =
     (let s = session request in
      if \<not> truthy s then ([], Done)
      else if \<not> truthy (getprop s ''sessionId'') then ([], Done)
      else if \<not> shouldSaveSession request (cookie opts) (saveUninitialized opts) then ([], Done)
      else
        (case setCallback opts s (store_set (store opts) (getprop s ''sessionId'') s) of
           (evs, out) \<Rightarrow> (StoreSet (getprop s ''sessionId'') s # evs, out)))"

section \<open>The identifier generator\<close>


section \<open>Sample collaborators\<close>

text \<open>
  Concrete collaborators on which the hooks can be run. They are used only to evaluate the
  hooks at concrete inputs; every general theorem below holds for all collaborators.
\<close>

definition cookie_to_js :: "cookie_options \<Rightarrow> jsval" where
  "cookie_to_js c =
     JObj ((case path c of None \<Rightarrow> [] | Some p \<Rightarrow> [(''path'', JStr p)])
           @ [(''secure'', secure c)] @ attrs c)"

text \<open>
  Modelled from the spec: the \<open>Session\<close> class of \<open>./session\<close> is not among the
  sources. The spec's entity carries its identity, its signed identity, an expiry, the
  cookie options (owned by configuration and copied into the entity) and the data; a
  freshly minted entity has exactly these four enumerable base fields and no data keys.
\<close>

definition Session_sample ::
  "jsval \<Rightarrow> jsval \<Rightarrow> cookie_options \<Rightarrow> string option \<Rightarrow> stored_session option \<Rightarrow> jsval" where
  "Session_sample sid esid cookieOpts secret' prev =
     JObj ([(''sessionId'', sid), (''encryptedSessionId'', esid),
            (''expires'', (case prev of
                             None \<Rightarrow> JNull
                           | Some r \<Rightarrow> (case expires r of None \<Rightarrow> JNull | Some e \<Rightarrow> JNum e))),
            (''cookie'', cookie_to_js cookieOpts)]
           @ (case prev of None \<Rightarrow> [] | Some r \<Rightarrow> data r))"

definition secret0 :: string where
  "secret0 = ''0123456789abcdef0123456789abcdef''"

text \<open>
  A store holding one expired record under \<open>''s1''\<close> and one live record under
  \<open>''s2''\<close> (the clock of \<open>env0\<close> reads 2000); both were saved under a cookie
  configuration that differs from the current one.
\<close>

definition rec1 :: stored_session where
  "rec1 = \<lparr>sessionId = JStr ''s1'', encryptedSessionId = JStr ''s1.sig1'',
           expires = Some 1000,
           stored_cookie = \<lparr>path = Some ''/old'', secure = JBool False, attrs = []\<rparr>,
           data = [(''user'', JStr ''ann'')]\<rparr>"

definition rec2 :: stored_session where
  "rec2 = \<lparr>sessionId = JStr ''s2'', encryptedSessionId = JStr ''s2.sig2'',
           expires = Some 9000,
           stored_cookie = \<lparr>path = Some ''/old'', secure = JBool False, attrs = []\<rparr>,
           data = [(''user'', JStr ''bob'')]\<rparr>"

definition store0 :: store where
  "store0 =
     \<lparr>store_get = (\<lambda>k. if k = ''s1'' then (JNull, Some rec1)
                       else if k = ''s2'' then (JNull, Some rec2)
                       else (JNull, None)),
      store_set = (\<lambda>k v. JNull),
      store_destroy = (\<lambda>k. JNull)\<rparr>"

text \<open>
  A signer in the shape of \<open>cookie-signature\<close>: a signed value is the identifier, a dot
  and a signature, and \<open>unsign\<close> gives back the identifier of the two values signed
  under \<open>secret0\<close>.
\<close>

definition env0 :: env where
  "env0 =
     \<lparr>unsign = (\<lambda>c k. if k = Some secret0 \<and> c = ''s1.sig1'' then Some ''s1''
                        else if k = Some secret0 \<and> c = ''s2.sig2'' then Some ''s2''
                        else None),
      generateSessionIds = (\<lambda>k. (JStr ''n1'', JStr ''n1.sig'')),
      Session_new = Session_sample,
      Store_new = store0,
      now = 2000\<rparr>"

definition raw0 :: raw_options where
  "raw0 = \<lparr>opt_secret = Some secret0, opt_store = None, opt_cookieName = None,
           opt_cookie = Some \<lparr>path = Some ''/api'', secure = JBool False, attrs = []\<rparr>,
           opt_saveUninitialized = JUndefined\<rparr>"

definition options0 :: options where
  "options0 = ensureDefaults env0 raw0"

definition request0 :: request where
  "request0 = \<lparr>url = ''/api/items'', connection = JObj [], cookies = (\<lambda>n. None),
               headers = (\<lambda>h. JUndefined), session = JObj []\<rparr>"

text \<open>The entity a request without a cookie is given under these collaborators.\<close>

definition session0 :: jsval where
  "session0 = Session_sample (JStr ''n1'') (JStr ''n1.sig'') (cookie options0) (Some secret0) None"

text \<open>Requests carrying the cookie of the expired record, of the live record, and a forged one.\<close>

definition request_s1 :: request where
  "request_s1 = request0\<lparr>cookies := (\<lambda>n. if n = ''sessionId'' then Some ''s1.sig1'' else None)\<rparr>"

definition request_s2 :: request where
  "request_s2 = request0\<lparr>cookies := (\<lambda>n. if n = ''sessionId'' then Some ''s2.sig2'' else None)\<rparr>"

definition request_forged :: request where
  "request_forged = request0\<lparr>cookies := (\<lambda>n. if n = ''sessionId'' then Some ''s2.forged'' else None)\<rparr>"

text \<open>Stores whose \<open>get\<close> reports a miss by error code, a backend failure, or an empty result.\<close>

definition options_get :: "jsval \<Rightarrow> options" where
  "options_get err = options0\<lparr>store := store0\<lparr>store_get := (\<lambda>k. (err, None))\<rparr>\<rparr>"

text \<open>A store whose \<open>set\<close> fails.\<close>

definition options_full :: options where
  "options_full = options0\<lparr>store := store0\<lparr>store_set := (\<lambda>k v. JStr ''disk full'')\<rparr>\<rparr>"

text \<open>The configuration with a secure cookie.\<close>

definition options_secure :: options where
  "options_secure = options0\<lparr>cookie := (cookie options0)\<lparr>secure := JBool True\<rparr>\<rparr>"





section \<open>Properties\<close>

subsection \<open>Auxiliary facts\<close>

text \<open>A path is in scope exactly when the cookie path is a prefix of the request's URL.\<close>

lemma indexOf_zero_iff: "indexOf u p = 0 \<longleftrightarrow> prefix p u"
  by (cases u) (auto simp: Let_def)

lemma newSession_eq:
  "newSession E k request c =
     (request\<lparr>session := Session_new E (fst (generateSessionIds E k))
                            (snd (generateSessionIds E k)) c k None\<rparr>, Done)"
  by (simp add: newSession_def Let_def)

text \<open>
  What the preHandler hook does with an expired record, for all collaborators: the get is
  keyed by the unsigned identifier, the destroy by the cookie value.
\<close>

lemma handleSession_expired:
  assumes "indexOf (url request) (cookiePath (cookie opts)) = 0"
    and "cookies request (cookieName opts) = Some c" and "c \<noteq> []"
    and "unsign E c (secret opts) = Some d"
    and "store_get (store opts) d = (err, Some r)" and "\<not> truthy err"
    and "expires r = Some e" and "e \<noteq> 0" and "e \<le> now E"
  shows "handleSession E opts request =
           (if truthy (store_destroy (store opts) c)
            then ([StoreGet d, StoreDestroy c], request, Failed (store_destroy (store opts) c))
            else ([StoreGet d, StoreDestroy c],
                  request\<lparr>session :=
                    Session_new E (fst (generateSessionIds E (secret opts)))
                      (snd (generateSessionIds E (secret opts))) (cookie opts) (secret opts) None\<rparr>,
                  Done))"
  using assms
  by (simp add: handleSession_def getCallback_def getDestroyCallback_def newSession_eq)

lemma options0_eq:
  "options0 = \<lparr>secret = Some secret0, store = store0, cookieName = ''sessionId'',
     cookie = \<lparr>path = Some ''/api'', secure = JBool False, attrs = []\<rparr>,
     saveUninitialized = JBool True\<rparr>"
  by (simp add: options0_def ensureDefaults_def raw0_def env0_def option_def)

lemmas sample_defs = options0_eq env0_def store0_def request0_def rec1_def rec2_def
  Session_sample_def cookie_to_js_def cookiePath_def secret0_def session0_def
  request_s1_def request_s2_def request_forged_def options_get_def options_full_def
  options_secure_def

subsection \<open>Inbound resolution\<close>

text \<open>
  C1 (expired record). The hook is run on the request that carries the signed cookie
  \<open>s1.sig1\<close>; the cookie unsigns to the identifier \<open>s1\<close>, under which the store
  holds a record that expired at 1000, and the clock reads 2000. The record is looked up
  under \<open>s1\<close>, but the destroy is issued for the cookie value \<open>s1.sig1\<close>, which is
  not the identifier of the session and not a key of the store; the record under \<open>s1\<close>
  is never destroyed. After the destroy has reported success the request is given the
  freshly generated session \<open>n1\<close>.
\<close>

theorem C1_destroy_keyed_by_cookie_value:
  "handleSession env0 options0 request_s1
     = ([StoreGet ''s1'', StoreDestroy ''s1.sig1''], request_s1\<lparr>session := session0\<rparr>, Done)"
  by (simp add: handleSession_def getCallback_def getDestroyCallback_def newSession_eq sample_defs)




text \<open>
  C3 (errors and misses of \<open>Store.get\<close>). The request is under the cookie path and
  its cookie unsigns to \<open>d\<close>, so the store is asked for \<open>d\<close> and answers
  \<open>(err, found)\<close>. An error whose \<open>code\<close> is \<open>ENOENT\<close> gives a fresh session, as
  an absent cookie does; any other error ends the hook with that error and leaves the
  request without a session; no error and no record gives a fresh session too. In all
  three cases the get is the only call on the store.
\<close>

theorem C3_get_error_or_miss:
  assumes "indexOf (url request) (cookiePath (cookie opts)) = 0"
    and "cookies request (cookieName opts) = Some c" and "c \<noteq> []"
    and "unsign E c (secret opts) = Some d"
    and "store_get (store opts) d = (err, found)"
  shows "(truthy err \<and> getprop err ''code'' = JStr ''ENOENT'' \<longrightarrow>
            handleSession E opts request =
              ([StoreGet d],
               request\<lparr>session :=
                   Session_new E (fst (generateSessionIds E (secret opts)))
                     (snd (generateSessionIds E (secret opts))) (cookie opts) (secret opts) None\<rparr>,
               Done))
       \<and> (truthy err \<and> getprop err ''code'' \<noteq> JStr ''ENOENT'' \<longrightarrow>
            handleSession E opts request = ([StoreGet d], request, Failed err))
       \<and> (\<not> truthy err \<and> found = None \<longrightarrow>
            handleSession E opts request =
              ([StoreGet d],
               request\<lparr>session :=
                   Session_new E (fst (generateSessionIds E (secret opts)))
                     (snd (generateSessionIds E (secret opts))) (cookie opts) (secret opts) None\<rparr>,
               Done))"
  using assms by (simp add: handleSession_def getCallback_def newSession_eq)

theorem C3_get_error_or_miss_witness:
  "handleSession env0 (options_get (JObj [(''code'', JStr ''ENOENT'')])) request_s2
     = ([StoreGet ''s2''], request_s2\<lparr>session := session0\<rparr>, Done)
   \<and> handleSession env0 (options_get (JObj [(''code'', JStr ''ECONNRESET'')])) request_s2
     = ([StoreGet ''s2''], request_s2, Failed (JObj [(''code'', JStr ''ECONNRESET'')]))
   \<and> handleSession env0 (options_get JNull) request_s2
     = ([StoreGet ''s2''], request_s2\<lparr>session := session0\<rparr>, Done)"
proof -
  have scope: "indexOf (url request_s2) (cookiePath (cookie (options_get err))) = 0" for err
    by (simp add: sample_defs)
  have ck: "cookies request_s2 (cookieName (options_get err)) = Some ''s2.sig2''" for err
    by (simp add: sample_defs)
  have ne: "''s2.sig2'' \<noteq> []"
    by simp
  have un: "unsign env0 ''s2.sig2'' (secret (options_get err)) = Some ''s2''" for err
    by (simp add: sample_defs)
  have ans: "store_get (store (options_get err)) ''s2'' = (err, None)" for err
    by (simp add: sample_defs)
  show ?thesis
    using C3_get_error_or_miss [OF scope ck ne un ans, of "JObj [(''code'', JStr ''ENOENT'')]"]
      C3_get_error_or_miss [OF scope ck ne un ans, of "JObj [(''code'', JStr ''ECONNRESET'')]"]
      C3_get_error_or_miss [OF scope ck ne un ans, of JNull]
    by (simp add: sample_defs)
qed

text \<open>
  C9, as stated, fails on the cookie attributes. The live record \<open>rec2\<close> was stored with
  the cookie path \<open>/old\<close>; the plugin is now configured with the cookie path
  \<open>/api\<close>. The constructor is called with the configured cookie options, which are
  not those of the record, and the entity attached to the request carries the configured
  attributes.
\<close>

theorem C9_cookie_from_configuration_counterexample:
  "handleSession env0 options0 request_s2
     = ([StoreGet ''s2''],
        request_s2\<lparr>session := Session_new env0 (sessionId rec2) (encryptedSessionId rec2)
                                   (cookie options0) (secret options0) (Some rec2)\<rparr>,
        Done)
   \<and> cookie options0 \<noteq> stored_cookie rec2
   \<and> getprop (session (fst (snd (handleSession env0 options0 request_s2)))) ''cookie''
     = cookie_to_js (cookie options0)
   \<and> cookie_to_js (cookie options0) \<noteq> cookie_to_js (stored_cookie rec2)"
  by (simp add: handleSession_def getCallback_def sample_defs)

text \<open>
  C9 (amended). When the request is under the cookie path, its cookie unsigns to \<open>d\<close>
  and the store answers the get for \<open>d\<close> with no error and a record that has no
  \<open>expires\<close> or one later than now, the hook attaches the entity that the
  \<open>Session\<close> constructor builds from the record's \<open>sessionId\<close> and
  \<open>encryptedSessionId\<close>, the configured cookie options and secret, and the record
  itself as the previous session; it makes no other call on the store and ends without an
  error.
\<close>

theorem C9_hydrated_from_record:
  assumes "indexOf (url request) (cookiePath (cookie opts)) = 0"
    and "cookies request (cookieName opts) = Some c" and "c \<noteq> []"
    and "unsign E c (secret opts) = Some d"
    and "store_get (store opts) d = (err, Some r)" and "\<not> truthy err"
    and "expires r = None \<or> (\<exists>e. expires r = Some e \<and> now E < e)"
  shows "handleSession E opts request =
           ([StoreGet d],
            request\<lparr>session :=
                Session_new E (sessionId r) (encryptedSessionId r) (cookie opts) (secret opts) (Some r)\<rparr>,
            Done)"
  using assms by (auto simp: handleSession_def getCallback_def)

theorem C9_hydrated_from_record_witness:
  "handleSession env0 options0 request_s2
     = ([StoreGet ''s2''],
        request_s2\<lparr>session := Session_sample (JStr ''s2'') (JStr ''s2.sig2'') (cookie options0)
                                   (Some secret0) (Some rec2)\<rparr>, Done)"
proof -
  have scope: "indexOf (url request_s2) (cookiePath (cookie options0)) = 0"
    by (simp add: sample_defs)
  have ck: "cookies request_s2 (cookieName options0) = Some ''s2.sig2''"
    by (simp add: sample_defs)
  have ne: "''s2.sig2'' \<noteq> []"
    by simp
  have un: "unsign env0 ''s2.sig2'' (secret options0) = Some ''s2''"
    by (simp add: sample_defs)
  have ans: "store_get (store options0) ''s2'' = (JNull, Some rec2)"
    by (simp add: options0_eq store0_def)
  have ok: "\<not> truthy JNull"
    by simp
  have live: "expires rec2 = None \<or> (\<exists>e. expires rec2 = Some e \<and> now env0 < e)"
    by (simp add: rec2_def env0_def)
  show ?thesis
    using C9_hydrated_from_record [OF scope ck ne un ans ok live]
    by (simp add: options0_eq env0_def rec2_def)
qed

text \<open>
  C8, as stated, fails: the hook tests whether the request's URL starts with the cookie
  path, as a string. The path \<open>/apix\<close> does not fall under the cookie path \<open>/api\<close>,
  but the URL \<open>/apix\<close> starts with it: the request is resolved like one under the
  cookie path. Without a cookie it is given a fresh session, which the onSend hook
  writes to the store and announces in a cookie.
\<close>

theorem C8_prefix_counterexample:
  "cookiePath (cookie options0) = ''/api''
   \<and> indexOf ''/apix'' ''/api'' = 0
   \<and> handleSession env0 options0 (request0\<lparr>url := ''/apix''\<rparr>)
       = ([], request0\<lparr>url := ''/apix'', session := session0\<rparr>, Done)
   \<and> saveSession options0 (fst (snd (handleSession env0 options0 (request0\<lparr>url := ''/apix''\<rparr>))))
       = ([StoreSet (JStr ''n1'') session0,
           SetCookie ''sessionId'' (JStr ''n1.sig'') (cookie_to_js (cookie options0))], Done)"
  by (simp add: handleSession_def newSession_eq saveSession_def shouldSaveSession_def
        setCallback_def sample_defs)

text \<open>
  C8 (amended: out of scope is what the code tests). The plugin decorates every request
  with the empty object as its \<open>session\<close>. When the request's URL does not start with
  the cookie path, the preHandler hook makes no call at all and leaves the request as it
  is, whatever cookie it carries: no entity is assigned. The onSend hook, run on the
  request in that state, makes no call on the store and sets no cookie; more generally it
  does nothing for any request that has no entity or whose entity has no \<open>sessionId\<close>.
\<close>

theorem C8_out_of_scope_untouched:
  assumes "indexOf (url request) (cookiePath (cookie opts)) \<noteq> 0"
  shows "handleSession E opts (request\<lparr>session := JObj []\<rparr>)
           = ([], request\<lparr>session := JObj []\<rparr>, Done)
       \<and> saveSession opts (fst (snd (handleSession E opts (request\<lparr>session := JObj []\<rparr>))))
           = ([], Done)
       \<and> (\<not> truthy (session request) \<or> \<not> truthy (getprop (session request) ''sessionId'')
            \<longrightarrow> handleSession E opts request = ([], request, Done)
                \<and> saveSession opts request = ([], Done))"
  using assms by (auto simp: handleSession_def saveSession_def Let_def)

theorem C8_out_of_scope_untouched_witness:
  "handleSession env0 options0 (request_s2\<lparr>url := ''/health'', session := JObj []\<rparr>)
     = ([], request_s2\<lparr>url := ''/health'', session := JObj []\<rparr>, Done)
   \<and> saveSession options0
       (fst (snd (handleSession env0 options0 (request_s2\<lparr>url := ''/health'', session := JObj []\<rparr>))))
     = ([], Done)"
proof -
  have out: "indexOf (url (request_s2\<lparr>url := ''/health''\<rparr>)) (cookiePath (cookie options0)) \<noteq> 0"
    by (simp add: sample_defs)
  show ?thesis
    using C8_out_of_scope_untouched [OF out, of env0]
    by blast
qed

subsection \<open>Outbound persistence\<close>

text \<open>
  C4 (set, then cookie). When the onSend hook decides to save (the request has an
  entity with a \<open>sessionId\<close> and \<open>shouldSaveSession\<close> holds), its first call is
  \<open>Store.set\<close> with the entity's \<open>sessionId\<close> and the entity. If the set reports no
  error, the cookie is set next, named as configured, with the entity's
  \<open>encryptedSessionId\<close> and \<open>cookie\<close>, and the hook ends without an error. If the set
  reports an error, no cookie is set and the hook ends with that error.
\<close>

theorem C4_set_then_cookie:
  assumes "truthy (session request)"
    and "truthy (getprop (session request) ''sessionId'')"
    and "shouldSaveSession request (cookie opts) (saveUninitialized opts)"
  shows "(\<not> truthy (store_set (store opts) (getprop (session request) ''sessionId'') (session request)) \<longrightarrow>
            saveSession opts request =
              ([StoreSet (getprop (session request) ''sessionId'') (session request),
                SetCookie (cookieName opts) (getprop (session request) ''encryptedSessionId'')
                  (getprop (session request) ''cookie'')],
               Done))
       \<and> (truthy (store_set (store opts) (getprop (session request) ''sessionId'') (session request)) \<longrightarrow>
            saveSession opts request =
              ([StoreSet (getprop (session request) ''sessionId'') (session request)],
               Failed (store_set (store opts) (getprop (session request) ''sessionId'') (session request))))"
  using assms by (simp add: saveSession_def setCallback_def Let_def)

theorem C4_set_then_cookie_witness:
  "saveSession options0 (request0\<lparr>session := session0\<rparr>)
     = ([StoreSet (JStr ''n1'') session0,
         SetCookie ''sessionId'' (JStr ''n1.sig'') (cookie_to_js (cookie options0))], Done)
   \<and> saveSession options_full (request0\<lparr>session := session0\<rparr>)
     = ([StoreSet (JStr ''n1'') session0], Failed (JStr ''disk full''))"
proof -
  have ent: "truthy (session (request0\<lparr>session := session0\<rparr>))"
    by (simp add: sample_defs)
  have ident: "truthy (getprop (session (request0\<lparr>session := session0\<rparr>)) ''sessionId'')"
    by (simp add: sample_defs)
  have dec: "shouldSaveSession (request0\<lparr>session := session0\<rparr>) (cookie options0)
               (saveUninitialized options0)"
    by (simp add: shouldSaveSession_def sample_defs)
  have dec': "shouldSaveSession (request0\<lparr>session := session0\<rparr>) (cookie options_full)
               (saveUninitialized options_full)"
    by (simp add: shouldSaveSession_def sample_defs)
  show ?thesis
    using C4_set_then_cookie [OF ent ident dec] C4_set_then_cookie [OF ent ident dec']
    by (simp add: sample_defs)
qed

text \<open>
  C5 (secure-cookie gating). For an entity with a \<open>sessionId\<close> that passed the
  \<open>saveUninitialized\<close> check (the option is truthy, or the entity counts as modified),
  the decision of \<open>shouldSaveSession\<close> is: save when the configured \<open>secure\<close> is not
  \<open>true\<close>; otherwise save exactly when the connection exists and its \<open>encrypted\<close>
  is \<open>true\<close>, or the header \<open>x-forwarded-proto\<close> is \<open>https\<close>. When the decision
  is to save, the hook calls \<open>Store.set\<close> with the entity and then sets the cookie, in
  the callback of that set and provided the set reported no error (C4); otherwise it
  makes no call on the store and sets no cookie.
\<close>

theorem C5_secure_gate:
  assumes "truthy (session request)"
    and "truthy (getprop (session request) ''sessionId'')"
    and "truthy (saveUninitialized opts) \<or> isSessionModified (session request)"
  shows "shouldSaveSession request (cookie opts) (saveUninitialized opts)
           = (secure (cookie opts) \<noteq> JBool True
              \<or> (truthy (connection request) \<and> getprop (connection request) ''encrypted'' = JBool True)
              \<or> headers request ''x-forwarded-proto'' = JStr ''https'')
       \<and> saveSession opts request
           = (if secure (cookie opts) \<noteq> JBool True
                 \<or> (truthy (connection request) \<and> getprop (connection request) ''encrypted'' = JBool True)
                 \<or> headers request ''x-forwarded-proto'' = JStr ''https''
              then (if truthy (store_set (store opts) (getprop (session request) ''sessionId'')
                                 (session request))
                    then ([StoreSet (getprop (session request) ''sessionId'') (session request)],
                          Failed (store_set (store opts) (getprop (session request) ''sessionId'')
                                    (session request)))
                    else ([StoreSet (getprop (session request) ''sessionId'') (session request),
                           SetCookie (cookieName opts) (getprop (session request) ''encryptedSessionId'')
                             (getprop (session request) ''cookie'')],
                          Done))
              else ([], Done))"
  using assms by (auto simp: saveSession_def shouldSaveSession_def setCallback_def Let_def)

theorem C5_secure_gate_witness:
  "saveSession options_secure (request0\<lparr>session := session0\<rparr>) = ([], Done)
   \<and> saveSession options_secure
        (request0\<lparr>headers := (\<lambda>h. if h = ''x-forwarded-proto'' then JStr ''https'' else JUndefined),
                  session := session0\<rparr>)
      = ([StoreSet (JStr ''n1'') session0,
          SetCookie ''sessionId'' (JStr ''n1.sig'') (cookie_to_js (cookie options0))], Done)
   \<and> saveSession options_secure
        (request0\<lparr>connection := JObj [(''encrypted'', JBool True)], session := session0\<rparr>)
      = ([StoreSet (JStr ''n1'') session0,
          SetCookie ''sessionId'' (JStr ''n1.sig'') (cookie_to_js (cookie options0))], Done)
   \<and> saveSession options0 (request0\<lparr>session := session0\<rparr>)
      = ([StoreSet (JStr ''n1'') session0,
          SetCookie ''sessionId'' (JStr ''n1.sig'') (cookie_to_js (cookie options0))], Done)"
proof -
  have ent: "truthy (session (r\<lparr>session := session0\<rparr>))" for r :: request
    by (simp add: sample_defs)
  have ident: "truthy (getprop (session (r\<lparr>session := session0\<rparr>)) ''sessionId'')" for r :: request
    by (simp add: sample_defs)
  have pass: "truthy (saveUninitialized options_secure)
              \<or> isSessionModified (session (r\<lparr>session := session0\<rparr>))" for r :: request
    by (simp add: sample_defs)
  have pass0: "truthy (saveUninitialized options0)
              \<or> isSessionModified (session (r\<lparr>session := session0\<rparr>))" for r :: request
    by (simp add: sample_defs)
  show ?thesis
    using
      C5_secure_gate [OF ent ident pass, of request0]
      C5_secure_gate [OF ent ident pass,
        of "request0\<lparr>headers := (\<lambda>h. if h = ''x-forwarded-proto'' then JStr ''https'' else JUndefined)\<rparr>"]
      C5_secure_gate [OF ent ident pass, of "request0\<lparr>connection := JObj [(''encrypted'', JBool True)]\<rparr>"]
      C5_secure_gate [OF ent ident pass0, of request0]
    by (simp add: sample_defs setCallback_def)
qed

text \<open>
  C6 (uninitialized sessions are not saved). When \<open>saveUninitialized\<close> is \<open>false\<close>
  and the request's entity has exactly 4 enumerable keys, as a freshly minted one has, the
  onSend hook makes no call on the store and sets no cookie.
\<close>

theorem C6_uninitialized_not_saved:
  assumes "saveUninitialized opts = JBool False"
    and "length (object_keys (session request)) = 4"
  shows "saveSession opts request = ([], Done)"
  using assms by (simp add: saveSession_def shouldSaveSession_def isSessionModified_def Let_def)

theorem C6_uninitialized_not_saved_witness:
  "saveSession (options0\<lparr>saveUninitialized := JBool False\<rparr>) (request0\<lparr>session := session0\<rparr>)
     = ([], Done)"
proof (rule C6_uninitialized_not_saved)
  show "saveUninitialized (options0\<lparr>saveUninitialized := JBool False\<rparr>) = JBool False"
    by simp
  show "length (object_keys (session (request0\<lparr>session := session0\<rparr>))) = 4"
    by (simp add: sample_defs)
qed

text \<open>
  C10 (the default saves untouched sessions). When the application leaves
  \<open>saveUninitialized\<close> undefined, \<open>ensureDefaults\<close> sets it to \<open>true\<close>, and for
  every entity with a \<open>sessionId\<close> the onSend hook then decides by the secure-transport
  test alone: the number of keys of the entity does not enter, so an entity the
  application never touched is treated like any other. When that test passes, the hook
  calls \<open>Store.set\<close> with the entity and then sets the cookie, in the callback of that
  set and provided the set reported no error (C4).
\<close>

theorem C10_default_saves_untouched:
  assumes "opt_saveUninitialized raw = JUndefined"
    and "truthy (session request)"
    and "truthy (getprop (session request) ''sessionId'')"
  shows "saveUninitialized (ensureDefaults E raw) = JBool True
       \<and> saveSession (ensureDefaults E raw) request
           = (if secure (cookie (ensureDefaults E raw)) \<noteq> JBool True
                 \<or> (truthy (connection request) \<and> getprop (connection request) ''encrypted'' = JBool True)
                 \<or> headers request ''x-forwarded-proto'' = JStr ''https''
              then (if truthy (store_set (store (ensureDefaults E raw))
                                 (getprop (session request) ''sessionId'') (session request))
                    then ([StoreSet (getprop (session request) ''sessionId'') (session request)],
                          Failed (store_set (store (ensureDefaults E raw))
                                    (getprop (session request) ''sessionId'') (session request)))
                    else ([StoreSet (getprop (session request) ''sessionId'') (session request),
                           SetCookie (cookieName (ensureDefaults E raw))
                             (getprop (session request) ''encryptedSessionId'')
                             (getprop (session request) ''cookie'')],
                          Done))
              else ([], Done))"
proof -
  have su: "saveUninitialized (ensureDefaults E raw) = JBool True"
    using assms(1) by (simp add: ensureDefaults_def option_def Let_def)
  then have "truthy (saveUninitialized (ensureDefaults E raw))"
    by simp
  with assms(2,3) su show ?thesis
    by (auto simp: saveSession_def shouldSaveSession_def setCallback_def Let_def)
qed

theorem C10_default_saves_untouched_witness:
  "length (object_keys session0) = 4
   \<and> saveSession (ensureDefaults env0 raw0) (request0\<lparr>session := session0\<rparr>)
      = ([StoreSet (JStr ''n1'') session0,
          SetCookie ''sessionId'' (JStr ''n1.sig'') (cookie_to_js (cookie options0))], Done)"
proof -
  have dflt: "opt_saveUninitialized raw0 = JUndefined"
    by (simp add: raw0_def)
  have ent: "truthy (session (request0\<lparr>session := session0\<rparr>))"
    by (simp add: sample_defs)
  have ident: "truthy (getprop (session (request0\<lparr>session := session0\<rparr>)) ''sessionId'')"
    by (simp add: sample_defs)
  have untouched: "length (object_keys session0) = 4"
    by (simp add: sample_defs)
  show ?thesis
    using C10_default_saves_untouched [OF dflt ent ident, of env0] untouched
    by (simp add: sample_defs ensureDefaults_def raw0_def option_def setCallback_def)
qed

subsection \<open>Setup\<close>

text \<open>
  C7 (the secret is checked at setup). \<open>checkOptions\<close> reports an error exactly when
  the secret is missing or shorter than 32, and the plugin's setup fails exactly then; a
  secret of length 32 or more passes. The hooks do not check the secret: whatever options
  they run under, the only error a hook ends with is one that the store passed to a
  callback of that very request.
\<close>

theorem C7_secret_checked_at_setup:
  "(checkOptions raw \<noteq> None)
     = (opt_secret raw = None \<or> (\<exists>s. opt_secret raw = Some s \<and> length s < 32))
   \<and> ((\<exists>error. session_plugin E raw = Inl error)
        = (opt_secret raw = None \<or> (\<exists>s. opt_secret raw = Some s \<and> length s < 32)))
   \<and> (snd (snd (handleSession E opts request)) = Failed e \<longrightarrow>
        truthy e \<and> (\<exists>k. e = fst (store_get (store opts) k) \<or> e = store_destroy (store opts) k))
   \<and> (snd (saveSession opts request) = Failed e \<longrightarrow>
        truthy e \<and> (\<exists>k v. e = store_set (store opts) k v))"
proof -
  have a: "(checkOptions raw \<noteq> None)
             = (opt_secret raw = None \<or> (\<exists>s. opt_secret raw = Some s \<and> length s < 32))"
    by (auto simp: checkOptions_def split: option.splits)
  have b: "(\<exists>error. session_plugin E raw = Inl error) = (checkOptions raw \<noteq> None)"
    by (auto simp: session_plugin_def split: option.splits)
  have c: "truthy e \<and> (\<exists>k. e = fst (store_get (store opts) k) \<or> e = store_destroy (store opts) k)"
    if "snd (snd (handleSession E opts request)) = Failed e"
    using that unfolding handleSession_def getCallback_def getDestroyCallback_def newSession_eq
    by (auto split: if_splits option.splits prod.splits) (metis fst_conv)+
  have d: "truthy e \<and> (\<exists>k v. e = store_set (store opts) k v)"
    if "snd (saveSession opts request) = Failed e"
    using that unfolding saveSession_def setCallback_def Let_def
    by (auto split: if_splits)
  from a b c d show ?thesis
    by simp
qed

theorem C7_secret_checked_at_setup_witness:
  "checkOptions raw0 = None
   \<and> checkOptions (raw0\<lparr>opt_secret := Some ''0123456789abcdef0123456789abcde''\<rparr>) \<noteq> None
   \<and> (\<exists>error. session_plugin env0 (raw0\<lparr>opt_secret := None\<rparr>) = Inl error)
   \<and> (\<exists>k. JStr ''disk full'' = store_set (store options_full) k session0)"
proof -
  let ?short = "raw0\<lparr>opt_secret := Some ''0123456789abcdef0123456789abcde''\<rparr>"
  have failed: "snd (saveSession options_full (request0\<lparr>session := session0\<rparr>)) = Failed (JStr ''disk full'')"
    by (simp add: saveSession_def shouldSaveSession_def setCallback_def sample_defs)
  have long: "\<not> (opt_secret raw0 = None \<or> (\<exists>s. opt_secret raw0 = Some s \<and> length s < 32))"
    by (simp add: raw0_def secret0_def)
  have short: "opt_secret ?short = None \<or> (\<exists>s. opt_secret ?short = Some s \<and> length s < 32)"
    by simp
  have missing: "opt_secret (raw0\<lparr>opt_secret := None\<rparr>) = None
                 \<or> (\<exists>s. opt_secret (raw0\<lparr>opt_secret := None\<rparr>) = Some s \<and> length s < 32)"
    by simp
  show ?thesis
    using C7_secret_checked_at_setup [of raw0 env0 options_full "request0\<lparr>session := session0\<rparr>" "JStr ''disk full''"]
      C7_secret_checked_at_setup [of ?short env0 options_full "request0\<lparr>session := session0\<rparr>" "JStr ''disk full''"]
      C7_secret_checked_at_setup [of "raw0\<lparr>opt_secret := None\<rparr>" env0 options_full "request0\<lparr>session := session0\<rparr>" "JStr ''disk full''"]
      failed long short missing
    by (auto simp: sample_defs)
qed

end
